theory Spec2Isabelle
  imports Complex_Main "HOL-Library.Char_ord" "HOL-Library.List_Lexorder"
begin

section \<open>Numbers\<close>

text \<open>
  Every \<^verbatim>\<open>double\<close> of the program is modelled by a real number: the stored values
  are finite and \<open>+\<close>, \<open>-\<close>, \<open>*\<close> are exact (no rounding, no overflow, no signed zero).
  Division is the one operation of the program that leaves the finite values: the risk
  checks divide by the portfolio value without testing it, and IEEE 754 division by zero
  raises nothing but yields an infinity or a NaN. The quotient of such a division is
  therefore a value of \<open>quotient\<close>, and the comparison \<^verbatim>\<open>q > limit\<close> on it is \<open>exceeds\<close>:
  false on NaN, as every ordered comparison with a NaN is.
\<close>

datatype quotient = Finite real | PosInf | NegInf | NaN

definition fdiv :: "real \<Rightarrow> real \<Rightarrow> quotient" where
  "fdiv x y =
     (if y = 0 then (if 0 < x then PosInf else if x < 0 then NegInf else NaN)
      else Finite (x / y))"

fun exceeds :: "quotient \<Rightarrow> real \<Rightarrow> bool" where
  "exceeds (Finite q) limit = (limit < q)"
| "exceeds PosInf limit = True"
| "exceeds NegInf limit = False"
| "exceeds NaN limit = False"

section \<open>Domain model\<close>

text \<open>
  A data member \<^verbatim>\<open>x_\<close> of a class of the source is the field \<open>class_x\<close> of the record of
  that class: \<^verbatim>\<open>price_\<close> of \<^verbatim>\<open>Order\<close> is \<open>order_price\<close>, \<^verbatim>\<open>cash_\<close> of \<^verbatim>\<open>Portfolio\<close> is
  \<open>portfolio_cash\<close>, \<^verbatim>\<open>mutex_\<close> of \<^verbatim>\<open>RiskManager\<close> is \<open>manager_mutex\<close>.
\<close>

datatype OrderSide = BUY | SELL

datatype OrderType = MARKET | LIMIT | STOP | STOP_LIMIT

datatype OrderStatus = PENDING | FILLED | PARTIALLY_FILLED | CANCELLED | REJECTED

subsection \<open>Order\<close>

text \<open>
  \<^verbatim>\<open>std::to_string(int)\<close>: the decimal digits, most significant first, after a minus
  sign for a negative number.
\<close>

definition digit_char :: "nat \<Rightarrow> char" where
  "digit_char d =
     (if d = 0 then CHR ''0'' else if d = 1 then CHR ''1'' else if d = 2 then CHR ''2''
      else if d = 3 then CHR ''3'' else if d = 4 then CHR ''4'' else if d = 5 then CHR ''5''
      else if d = 6 then CHR ''6'' else if d = 7 then CHR ''7'' else if d = 8 then CHR ''8''
      else CHR ''9'')"

function dec_nat :: "nat \<Rightarrow> string" where
  "dec_nat n = (if n < 10 then [digit_char n] else dec_nat (n div 10) @ [digit_char (n mod 10)])"
  by pat_completeness auto
termination
  by (relation "measure (\<lambda>n. n)") auto

declare dec_nat.simps [simp del]

definition to_string :: "int \<Rightarrow> string" where
  "to_string i = (if i < 0 then CHR ''-'' # dec_nat (nat (- i)) else dec_nat (nat i))"

record Order =
  order_id :: string
  order_symbol :: string
  order_side :: OrderSide
  order_type :: OrderType
  order_quantity :: real
  order_price :: real
  order_filled_quantity :: real
  order_status :: OrderStatus
  order_create_time :: nat
  order_update_time :: nat

text \<open>
  \<^verbatim>\<open>generateOrderId\<close> pre-increments the function-local \<^verbatim>\<open>static int counter\<close>, which
  is threaded through the model as an \<open>int\<close>. Incrementing the largest \<^verbatim>\<open>int\<close> is
  undefined behaviour: the model returns \<open>None\<close> there.
\<close>

definition INT_MAX :: int where
  "INT_MAX = 2147483647"

definition generateOrderId :: "int \<Rightarrow> (string \<times> int) option" where
  "generateOrderId counter =
     (if counter = INT_MAX then None
      else Some (''ORD'' @ to_string (counter + 1), counter + 1))"

text \<open>
  The constructor stores its four arguments, takes the defaults of the member
  initialisers for the rest and asks for an identifier. It tests nothing. \<open>now\<close> is the
  reading of the system clock.
\<close>

definition Order_construct ::
    "string \<Rightarrow> OrderSide \<Rightarrow> OrderType \<Rightarrow> real \<Rightarrow> nat \<Rightarrow> int \<Rightarrow> (Order \<times> int) option" where
  "Order_construct symbol side type quantity now counter =
     (case generateOrderId counter of
        None \<Rightarrow> None
      | Some (oid, counter') \<Rightarrow>
          Some (\<lparr>order_id = oid, order_symbol = symbol, order_side = side, order_type = type,
                  order_quantity = quantity, order_price = 0, order_filled_quantity = 0,
                  order_status = PENDING, order_create_time = now, order_update_time = now\<rparr>, counter'))"

definition setPrice :: "real \<Rightarrow> Order \<Rightarrow> Order" where
  "setPrice price order = order\<lparr>order_price := price\<rparr>"

definition setStatus :: "OrderStatus \<Rightarrow> Order \<Rightarrow> Order" where
  "setStatus status order = order\<lparr>order_status := status\<rparr>"

definition setFilledQuantity :: "real \<Rightarrow> Order \<Rightarrow> Order" where
  "setFilledQuantity qty order = order\<lparr>order_filled_quantity := qty\<rparr>"

subsection \<open>Position\<close>

record Position =
  position_symbol :: string
  position_quantity :: real
  position_average_price :: real

definition Position_init :: "string \<Rightarrow> Position" where
  "Position_init symbol = \<lparr>position_symbol = symbol, position_quantity = 0, position_average_price = 0\<rparr>"

text \<open>
  \<^verbatim>\<open>quantity_ += quantity\<close> comes first, so the formula reads the new net quantity;
  \<^verbatim>\<open>quantity_ - quantity\<close> in it is the old one.
\<close>

definition Position_updatePosition :: "real \<Rightarrow> real \<Rightarrow> Position \<Rightarrow> Position" where
  "Position_updatePosition quantity price pos =
     (let q = position_quantity pos + quantity in
      if q \<noteq> 0
      then pos\<lparr>position_quantity := q,
                position_average_price := (position_average_price pos * (q - quantity) + price * quantity) / q\<rparr>
      else pos\<lparr>position_quantity := q\<rparr>)"

definition getMarketValue :: "Position \<Rightarrow> real \<Rightarrow> real" where
  "getMarketValue pos current_price = position_quantity pos * current_price"

definition getUnrealizedPnL :: "Position \<Rightarrow> real \<Rightarrow> real" where
  "getUnrealizedPnL pos current_price = position_quantity pos * (current_price - position_average_price pos)"

subsection \<open>Portfolio\<close>

text \<open>
  \<^verbatim>\<open>positions_\<close> is a \<^verbatim>\<open>std::map\<close> from symbol to position: an association list
  kept in the order of its keys, which is the order the map is iterated in. \<open>map_of\<close> is
  \<^verbatim>\<open>find\<close>, \<open>map_store\<close> is the assignment \<^verbatim>\<open>positions_[symbol] = ...\<close>.
\<close>

fun map_store :: "string \<Rightarrow> 'v \<Rightarrow> (string \<times> 'v) list \<Rightarrow> (string \<times> 'v) list" where
  "map_store k v [] = [(k, v)]"
| "map_store k v ((k', v') # rest) =
     (if k < k' then (k, v) # (k', v') # rest
      else if k = k' then (k, v) # rest
      else (k', v') # map_store k v rest)"

record Portfolio =
  portfolio_cash :: real
  portfolio_positions :: "(string \<times> Position) list"
  portfolio_total_exposure :: real
  portfolio_drawdown :: real
  portfolio_leverage :: real
  portfolio_daily_pnl :: real
  portfolio_concentration :: real

definition Portfolio_init :: Portfolio where
  "Portfolio_init =
     \<lparr>portfolio_cash = 1000000, portfolio_positions = [], portfolio_total_exposure = 0, portfolio_drawdown = 0,
      portfolio_leverage = 1, portfolio_daily_pnl = 0, portfolio_concentration = 0\<rparr>"

definition getPosition :: "Portfolio \<Rightarrow> string \<Rightarrow> Position option" where
  "getPosition portfolio symbol = map_of (portfolio_positions portfolio) symbol"

text \<open>
  A position is created on the first trade in its symbol, then the trade is applied to
  the position stored under the symbol.
\<close>

definition Portfolio_updatePosition :: "string \<Rightarrow> real \<Rightarrow> real \<Rightarrow> Portfolio \<Rightarrow> Portfolio" where
  "Portfolio_updatePosition symbol quantity price portfolio =
     (let pos = (case map_of (portfolio_positions portfolio) symbol of
                   None \<Rightarrow> Position_init symbol
                 | Some held \<Rightarrow> held)
      in portfolio\<lparr>portfolio_positions :=
           map_store symbol (Position_updatePosition quantity price pos) (portfolio_positions portfolio)\<rparr>)"

definition updateCash :: "real \<Rightarrow> Portfolio \<Rightarrow> Portfolio" where
  "updateCash amount portfolio = portfolio\<lparr>portfolio_cash := portfolio_cash portfolio + amount\<rparr>"

text \<open>The loop of \<^verbatim>\<open>getTotalValue\<close>, with the running \<^verbatim>\<open>total\<close> as accumulator.\<close>

fun total_loop :: "(string \<rightharpoonup> real) \<Rightarrow> (string \<times> Position) list \<Rightarrow> real \<Rightarrow> real" where
  "total_loop current_prices [] running = running"
| "total_loop current_prices ((symbol, position) # rest) running =
     total_loop current_prices rest
       (case current_prices symbol of
          Some price \<Rightarrow> running + getMarketValue position price
        | None \<Rightarrow> running)"

definition getTotalValue :: "Portfolio \<Rightarrow> (string \<rightharpoonup> real) \<Rightarrow> real" where
  "getTotalValue portfolio current_prices =
     total_loop current_prices (portfolio_positions portfolio) (portfolio_cash portfolio)"

definition getTotalExposure :: "Portfolio \<Rightarrow> real" where
  "getTotalExposure portfolio = portfolio_total_exposure portfolio"

definition getDrawdown :: "Portfolio \<Rightarrow> real" where
  "getDrawdown portfolio = portfolio_drawdown portfolio"

definition getLeverage :: "Portfolio \<Rightarrow> real" where
  "getLeverage portfolio = portfolio_leverage portfolio"

definition getDailyPnL :: "Portfolio \<Rightarrow> real" where
  "getDailyPnL portfolio = portfolio_daily_pnl portfolio"

definition getConcentration :: "Portfolio \<Rightarrow> real" where
  "getConcentration portfolio = portfolio_concentration portfolio"

text \<open>The two mutators of the class, as the steps of a history of the portfolio.\<close>

datatype portfolio_op = UpdatePosition string real real | UpdateCash real

fun apply_op :: "Portfolio \<Rightarrow> portfolio_op \<Rightarrow> Portfolio" where
  "apply_op portfolio (UpdatePosition symbol quantity price) =
     Portfolio_updatePosition symbol quantity price portfolio"
| "apply_op portfolio (UpdateCash amount) = updateCash amount portfolio"

definition run_ops :: "Portfolio \<Rightarrow> portfolio_op list \<Rightarrow> Portfolio" where
  "run_ops portfolio ops = foldl apply_op portfolio ops"

definition aggregates :: "Portfolio \<Rightarrow> real \<times> real \<times> real \<times> real \<times> real" where
  "aggregates portfolio =
     (getTotalExposure portfolio, getDrawdown portfolio, getLeverage portfolio,
      getDailyPnL portfolio, getConcentration portfolio)"

section \<open>Risk manager\<close>

text \<open>
  The header that declares \<^verbatim>\<open>RiskLimits\<close> and \<^verbatim>\<open>RiskManager\<close> is not among the
  sources; the fields below are the members the implementation reads and writes, and
  the mutex is a \<^verbatim>\<open>std::mutex\<close> because every guard on it is a
  \<^verbatim>\<open>std::lock_guard<std::mutex>\<close>.
\<close>

record RiskLimits =
  max_position_size :: real
  max_leverage :: real
  max_drawdown :: real
  daily_loss_limit :: real
  position_concentration :: real

text \<open>
  \<open>manager_mutex\<close> is true while the mutex is owned. The model is of one thread, the
  caller: when it constructs a \<^verbatim>\<open>std::lock_guard<std::mutex>\<close> on a mutex that is
  owned, the owner is the caller itself. \<^verbatim>\<open>std::mutex\<close> is not recursive; locking it
  again from the owning thread is undefined behaviour, and what the thread does in
  practice is wait for a release that can never come. The model has the call not return
  (\<open>None\<close>). The destructor of the guard releases the mutex at the end of the scope.
\<close>

record RiskManager =
  manager_limits :: RiskLimits
  manager_current_prices :: "string \<rightharpoonup> real"
  manager_current_metrics :: "string \<rightharpoonup> real"
  manager_mutex :: bool

definition RiskManager_init :: "RiskLimits \<Rightarrow> RiskManager" where
  "RiskManager_init limits =
     \<lparr>manager_limits = limits, manager_current_prices = Map.empty, manager_current_metrics = Map.empty,
      manager_mutex = False\<rparr>"

definition lock_guard :: "RiskManager \<Rightarrow> RiskManager option" where
  "lock_guard rm = (if manager_mutex rm then None else Some (rm\<lparr>manager_mutex := True\<rparr>))"

definition unlock :: "RiskManager \<Rightarrow> RiskManager" where
  "unlock rm = rm\<lparr>manager_mutex := False\<rparr>"

text \<open>What the calls write to the log, one constructor for each message of the source.\<close>

datatype log_line =
    PositionSizeLimitExceeded string
  | LeverageLimitExceeded
  | DrawdownLimitExceeded
  | DailyLossLimitExceeded
  | ConcentrationLimitExceeded string
  | RiskMetricsUpdated real real real

definition updateRiskMetrics :: "Portfolio \<Rightarrow> RiskManager \<Rightarrow> (log_line list \<times> RiskManager) option" where
  "updateRiskMetrics portfolio rm =
     (case lock_guard rm of
        None \<Rightarrow> None
      | Some locked \<Rightarrow>
          (let metrics = (manager_current_metrics locked)
                 (''drawdown'' \<mapsto> getDrawdown portfolio,
                  ''leverage'' \<mapsto> getLeverage portfolio,
                  ''daily_pnl'' \<mapsto> getDailyPnL portfolio,
                  ''concentration'' \<mapsto> getConcentration portfolio)
           in Some ([RiskMetricsUpdated (getDrawdown portfolio * 100) (getLeverage portfolio)
                       (getDailyPnL portfolio)],
                    unlock (locked\<lparr>manager_current_metrics := metrics\<rparr>))))"

definition getRiskMetrics :: "RiskManager \<Rightarrow> ((string \<rightharpoonup> real) \<times> RiskManager) option" where
  "getRiskMetrics rm =
     (case lock_guard rm of
        None \<Rightarrow> None
      | Some locked \<Rightarrow> Some (manager_current_metrics locked, unlock locked))"

definition updateCurrentPrices :: "(string \<rightharpoonup> real) \<Rightarrow> RiskManager \<Rightarrow> RiskManager option" where
  "updateCurrentPrices prices rm =
     (case lock_guard rm of
        None \<Rightarrow> None
      | Some locked \<Rightarrow> Some (unlock (locked\<lparr>manager_current_prices := prices\<rparr>)))"

text \<open>The conditions of the five checks, in the order of the source.\<close>

definition position_value :: "Order \<Rightarrow> real" where
  "position_value order = order_quantity order * order_price order"

definition position_size_exceeded :: "RiskLimits \<Rightarrow> Order \<Rightarrow> real \<Rightarrow> bool" where
  "position_size_exceeded limits order portfolio_value =
     exceeds (fdiv (position_value order) portfolio_value) (max_position_size limits)"

definition leverage_exceeded :: "RiskLimits \<Rightarrow> Order \<Rightarrow> Portfolio \<Rightarrow> real \<Rightarrow> bool" where
  "leverage_exceeded limits order portfolio portfolio_value =
     (let total_exposure = getTotalExposure portfolio + position_value order
      in exceeds (fdiv total_exposure portfolio_value) (max_leverage limits))"

definition drawdown_exceeded :: "RiskLimits \<Rightarrow> Portfolio \<Rightarrow> bool" where
  "drawdown_exceeded limits portfolio = (max_drawdown limits < getDrawdown portfolio)"

definition daily_loss_exceeded :: "RiskLimits \<Rightarrow> Portfolio \<Rightarrow> bool" where
  "daily_loss_exceeded limits portfolio = (getDailyPnL portfolio < - daily_loss_limit limits)"

definition new_concentration :: "Order \<Rightarrow> Portfolio \<Rightarrow> real \<Rightarrow> quotient" where
  "new_concentration order portfolio portfolio_value =
     (let new_position_size =
            (case getPosition portfolio (order_symbol order) of
               Some position \<Rightarrow> position_quantity position
             | None \<Rightarrow> 0) + order_quantity order
      in fdiv (new_position_size * order_price order) portfolio_value)"

definition concentration_exceeded :: "RiskLimits \<Rightarrow> Order \<Rightarrow> Portfolio \<Rightarrow> real \<Rightarrow> bool" where
  "concentration_exceeded limits order portfolio portfolio_value =
     exceeds (new_concentration order portfolio portfolio_value) (position_concentration limits)"

text \<open>
  \<^verbatim>\<open>checkOrderRisk\<close> takes the mutex, runs the checks and, when none of them fires, calls
  \<^verbatim>\<open>updateRiskMetrics\<close> while it still holds the mutex. The result is the returned
  boolean, the lines logged and the manager afterwards; \<open>None\<close> when the call does not
  return. Nothing in the body of the \<^verbatim>\<open>try\<close> throws (the price map is read with
  \<^verbatim>\<open>at\<close> only after \<^verbatim>\<open>find\<close> succeeded, and the divisions are floating-point
  divisions), so the \<^verbatim>\<open>catch\<close> has no branch here.
\<close>

definition checkOrderRisk ::
    "Order \<Rightarrow> Portfolio \<Rightarrow> RiskManager \<Rightarrow> (bool \<times> log_line list \<times> RiskManager) option" where
  "checkOrderRisk order portfolio rm =
     (case lock_guard rm of
        None \<Rightarrow> None
      | Some locked \<Rightarrow>
          (let portfolio_value = getTotalValue portfolio (manager_current_prices locked) in
           if position_size_exceeded (manager_limits locked) order portfolio_value
           then Some (False, [PositionSizeLimitExceeded (order_symbol order)], unlock locked)
           else if leverage_exceeded (manager_limits locked) order portfolio portfolio_value
           then Some (False, [LeverageLimitExceeded], unlock locked)
           else if drawdown_exceeded (manager_limits locked) portfolio
           then Some (False, [DrawdownLimitExceeded], unlock locked)
           else if daily_loss_exceeded (manager_limits locked) portfolio
           then Some (False, [DailyLossLimitExceeded], unlock locked)
           else if concentration_exceeded (manager_limits locked) order portfolio portfolio_value
           then Some (False, [ConcentrationLimitExceeded (order_symbol order)], unlock locked)
           else (case updateRiskMetrics portfolio locked of
                   None \<Rightarrow> None
                 | Some (logged, refreshed) \<Rightarrow> Some (True, logged, unlock refreshed))))"

section \<open>Control loop\<close>

text \<open>
  A strategy's signal, and the order the loop builds from it: a market order of the
  computed size, whose price is never set before the risk check. The prices the data
  loader reports and the configured position-size fraction are parameters.
\<close>

record Signal =
  signal_symbol :: string
  signal_side :: OrderSide
  strength :: real

definition calculateOrderSize :: "Portfolio \<Rightarrow> (string \<rightharpoonup> real) \<Rightarrow> real \<Rightarrow> Signal \<Rightarrow> real" where
  "calculateOrderSize portfolio prices position_size_limit signal =
     (let portfolio_value = getTotalValue portfolio prices
      in portfolio_value * position_size_limit * strength signal)"

definition createOrder ::
    "Portfolio \<Rightarrow> (string \<rightharpoonup> real) \<Rightarrow> real \<Rightarrow> Signal \<Rightarrow> nat \<Rightarrow> int \<Rightarrow> (Order \<times> int) option" where
  "createOrder portfolio prices position_size_limit signal now counter =
     Order_construct (signal_symbol signal) (signal_side signal) MARKET
       (calculateOrderSize portfolio prices position_size_limit signal) now counter"

section \<open>Example values\<close>

text \<open>
  The limits of the example scenario, a limit order whose price has been set, the market
  order the control loop builds first (identifier \<open>ORD1\<close>, price never set), and the
  portfolios the examples below run on.
\<close>

definition example_limits :: RiskLimits where
  "example_limits =
     \<lparr>max_position_size = 0.1, max_leverage = 2, max_drawdown = 0.2,
      daily_loss_limit = 50000, position_concentration = 0.15\<rparr>"

definition negative_limits :: RiskLimits where
  "negative_limits = example_limits\<lparr>max_position_size := - 1\<rparr>"

definition limit_order :: "string \<Rightarrow> real \<Rightarrow> real \<Rightarrow> Order" where
  "limit_order symbol quantity price =
     setPrice price
       \<lparr>order_id = ''ORD1'', order_symbol = symbol, order_side = BUY, order_type = LIMIT,
        order_quantity = quantity, order_price = 0, order_filled_quantity = 0,
        order_status = PENDING, order_create_time = 0, order_update_time = 0\<rparr>"

definition market_order :: "real \<Rightarrow> Order" where
  "market_order quantity =
     \<lparr>order_id = ''ORD1'', order_symbol = ''AAPL'', order_side = BUY, order_type = MARKET,
      order_quantity = quantity, order_price = 0, order_filled_quantity = 0,
      order_status = PENDING, order_create_time = 0, order_update_time = 0\<rparr>"

definition buy_signal :: Signal where
  "buy_signal = \<lparr>signal_symbol = ''AAPL'', signal_side = BUY, strength = 0.5\<rparr>"

definition drained_portfolio :: Portfolio where
  "drained_portfolio = updateCash (- 1000000) Portfolio_init"

definition two_positions :: Portfolio where
  "two_positions =
     Portfolio_updatePosition ''AAPL'' 100 900
       (Portfolio_updatePosition ''MSFT'' 50 300 Portfolio_init)"

definition after_first_fill :: Portfolio where
  "after_first_fill = Portfolio_updatePosition ''AAPL'' 100 900 Portfolio_init"

definition after_second_fill :: Portfolio where
  "after_second_fill = Portfolio_updatePosition ''AAPL'' 50 900 after_first_fill"

definition long_position :: Position where
  "long_position = Position_updatePosition 10 100 (Position_init ''AAPL'')"

text \<open>Reading a decimal numeral back, to show that \<open>to_string\<close> loses nothing.\<close>

definition digit_val :: "char \<Rightarrow> nat" where
  "digit_val c = of_char c - 48"

definition undec :: "string \<Rightarrow> nat" where
  "undec s = foldl (\<lambda>a c. 10 * a + digit_val c) 0 s"

section \<open>The position map\<close>

text \<open>
  \<open>map_store\<close> is the assignment of a \<^verbatim>\<open>std::map\<close>: afterwards the key is bound to
  the value and every other key is bound as before, and the keys stay in strictly
  increasing order, so each symbol is held once, in every portfolio the operations can
  produce.
\<close>

lemma map_of_map_store: "map_of (map_store k v ps) = (map_of ps)(k \<mapsto> v)"
  by (induction ps) (auto simp: fun_upd_twist)

lemma set_map_store: "fst ` set (map_store k v ps) = insert k (fst ` set ps)"
  by (simp add: dom_map_of_conv_image_fst [symmetric] map_of_map_store)

lemma map_store_sorted:
  "sorted_wrt (<) (map fst ps) \<Longrightarrow> sorted_wrt (<) (map fst (map_store k v ps))"
proof (induction ps)
  case Nil
  then show ?case by simp
next
  case (Cons a ps)
  obtain k' v' where a: "a = (k', v')" by (cases a)
  from Cons.prems a have rest: "sorted_wrt (<) (map fst ps)"
    and above: "\<forall>x \<in> set ps. k' < fst x"
    by auto
  show ?case
  proof (cases "k < k'")
    case True
    with Cons.prems a show ?thesis by auto
  next
    case False
    show ?thesis
    proof (cases "k = k'")
      case True
      with Cons.prems a show ?thesis by auto
    next
      case ne: False
      with False have "k' < k" by simp
      moreover have "fst ` set (map_store k v ps) = insert k (fst ` set ps)"
        by (rule set_map_store)
      ultimately have "\<forall>y \<in> fst ` set (map_store k v ps). k' < y"
        using above by simp
      then have "\<forall>x \<in> set (map_store k v ps). k' < fst x"
        by simp
      with False ne a Cons.IH [OF rest] show ?thesis by simp
    qed
  qed
qed

lemma positions_sorted_apply_op:
  "sorted_wrt (<) (map fst (portfolio_positions portfolio)) \<Longrightarrow>
     sorted_wrt (<) (map fst (portfolio_positions (apply_op portfolio op)))"
  by (cases op) (simp_all add: Portfolio_updatePosition_def updateCash_def Let_def map_store_sorted)

lemma positions_sorted_run_ops:
  "sorted_wrt (<) (map fst (portfolio_positions (run_ops Portfolio_init ops)))"
proof -
  have "sorted_wrt (<) (map fst (portfolio_positions portfolio)) \<Longrightarrow>
      sorted_wrt (<) (map fst (portfolio_positions (foldl apply_op portfolio ops)))" for portfolio
    by (induction ops arbitrary: portfolio) (simp_all add: positions_sorted_apply_op)
  then show ?thesis by (simp add: run_ops_def Portfolio_init_def)
qed

lemma getPosition_updatePosition:
  "getPosition (Portfolio_updatePosition symbol quantity price portfolio) symbol
     = Some (Position_updatePosition quantity price
         (case getPosition portfolio symbol of None \<Rightarrow> Position_init symbol | Some held \<Rightarrow> held))"
  by (simp add: getPosition_def Portfolio_updatePosition_def Let_def map_of_map_store)

section \<open>The portfolio's risk aggregates are never written\<close>

lemma aggregates_updatePosition:
  "aggregates (Portfolio_updatePosition symbol quantity price portfolio) = aggregates portfolio"
  by (simp add: aggregates_def Portfolio_updatePosition_def Let_def getTotalExposure_def
      getDrawdown_def getLeverage_def getDailyPnL_def getConcentration_def)

lemma aggregates_updateCash:
  "aggregates (updateCash amount portfolio) = aggregates portfolio"
  by (simp add: aggregates_def updateCash_def getTotalExposure_def
      getDrawdown_def getLeverage_def getDailyPnL_def getConcentration_def)

lemma aggregates_apply_op:
  "aggregates (apply_op portfolio op) = aggregates portfolio"
  by (cases op) (simp_all add: aggregates_updatePosition aggregates_updateCash)

lemma aggregates_foldl:
  "aggregates (foldl apply_op portfolio ops) = aggregates portfolio"
  by (induction ops arbitrary: portfolio) (simp_all add: aggregates_apply_op)

lemma aggregates_init:
  "aggregates Portfolio_init = (0, 0, 1, 0, 0)"
  by (simp add: aggregates_def Portfolio_init_def getTotalExposure_def
      getDrawdown_def getLeverage_def getDailyPnL_def getConcentration_def)

text \<open>
  Claim C9. The two mutators of the portfolio, \<^verbatim>\<open>updatePosition\<close> and
  \<^verbatim>\<open>updateCash\<close>, leave the five risk aggregates as they were, and the risk manager
  receives the portfolio read-only; so after any history of operations on a fresh
  portfolio the aggregates are still 0, 0, 1, 0, 0. The leverage check therefore adds the
  order's notional to an existing exposure of 0, and the drawdown and daily-loss checks
  compare 0 with their limits.
\<close>

theorem aggregates_never_written:
  "aggregates (run_ops portfolio ops) = aggregates portfolio
   \<and> aggregates (run_ops Portfolio_init ops) = (0, 0, 1, 0, 0)
   \<and> leverage_exceeded limits order (run_ops Portfolio_init ops) portfolio_value
       = exceeds (fdiv (position_value order) portfolio_value) (max_leverage limits)
   \<and> drawdown_exceeded limits (run_ops Portfolio_init ops) = (max_drawdown limits < 0)
   \<and> daily_loss_exceeded limits (run_ops Portfolio_init ops) = (0 < - daily_loss_limit limits)"
proof -
  have a: "aggregates (run_ops Portfolio_init ops) = (0, 0, 1, 0, 0)"
    by (simp add: run_ops_def aggregates_foldl aggregates_init)
  then have e: "getTotalExposure (run_ops Portfolio_init ops) = 0"
    and d: "getDrawdown (run_ops Portfolio_init ops) = 0"
    and p: "getDailyPnL (run_ops Portfolio_init ops) = 0"
    by (simp_all add: aggregates_def)
  show ?thesis
    using a by (simp add: run_ops_def aggregates_foldl leverage_exceeded_def
        drawdown_exceeded_def daily_loss_exceeded_def e [unfolded run_ops_def]
        d [unfolded run_ops_def] p [unfolded run_ops_def])
qed

section \<open>The total value of a portfolio\<close>

lemma total_loop_sum:
  "total_loop prices ps running =
     running + sum_list (map (\<lambda>(symbol, position). position_quantity position * the (prices symbol))
                 (filter (\<lambda>(symbol, position). symbol \<in> dom prices) ps))"
  by (induction ps arbitrary: running) (auto simp: getMarketValue_def split: option.splits)

lemma total_loop_filter:
  "total_loop prices (filter (\<lambda>(symbol, position). symbol \<in> dom prices) ps) running =
     total_loop prices ps running"
  by (induction ps arbitrary: running) (auto split: option.splits)

text \<open>
  Claim C7. For every portfolio and every price map, \<^verbatim>\<open>getTotalValue\<close> is the cash plus
  the sum, over exactly the held positions whose symbol has an entry in the price map, of
  net quantity times that price. A held position whose symbol has no entry adds nothing
  and raises nothing: the function is total, and the value is the same as that of the
  portfolio with every such position taken out.
\<close>

theorem getTotalValue_priced_sum:
  "getTotalValue portfolio prices =
     portfolio_cash portfolio
       + sum_list (map (\<lambda>(symbol, position). position_quantity position * the (prices symbol))
           (filter (\<lambda>(symbol, position). symbol \<in> dom prices) (portfolio_positions portfolio)))
   \<and> getTotalValue
         (portfolio\<lparr>portfolio_positions :=
            filter (\<lambda>(symbol, position). symbol \<in> dom prices) (portfolio_positions portfolio)\<rparr>)
         prices
       = getTotalValue portfolio prices"
  by (simp add: getTotalValue_def total_loop_sum [of prices "portfolio_positions portfolio"]
      total_loop_filter)

text \<open>
  An instance: 100 AAPL and 50 MSFT are held, only AAPL has a price. The total is the
  cash and the 100 AAPL at 950; MSFT is left out.
\<close>

theorem getTotalValue_priced_sum_witness:
  "getTotalValue two_positions [''AAPL'' \<mapsto> 950] = 1000000 + 100 * 950"
  using getTotalValue_priced_sum [of two_positions "[''AAPL'' \<mapsto> 950]"]
  by (simp add: two_positions_def Portfolio_updatePosition_def Portfolio_init_def
      Position_init_def Position_updatePosition_def Let_def)

section \<open>The average price of a position\<close>

lemma long_position_eq:
  "long_position =
     \<lparr>position_symbol = ''AAPL'', position_quantity = 10, position_average_price = 100\<rparr>"
  by (simp add: long_position_def Position_updatePosition_def Position_init_def Let_def)

text \<open>
  Claim C4, as the code has it. \<^verbatim>\<open>Position::updatePosition\<close> has one formula and no
  case distinction: the new net quantity is the old one plus the delta; whenever the new
  net quantity is not zero, whether the trade increased, reduced or flipped the position,
  the new average price is the blend (old average times old quantity plus trade price
  times delta) over the new quantity; when the trade nets the quantity to exactly zero,
  the quantity is 0 and the average price is left as it was.
\<close>

theorem Position_updatePosition_always_blends:
  "position_quantity (Position_updatePosition delta price pos) = position_quantity pos + delta
   \<and> (position_quantity pos + delta \<noteq> 0 \<longrightarrow>
        position_average_price (Position_updatePosition delta price pos)
          = (position_average_price pos * position_quantity pos + price * delta)
              / (position_quantity pos + delta))
   \<and> (position_quantity pos + delta = 0 \<longrightarrow>
        position_quantity (Position_updatePosition delta price pos) = 0
        \<and> position_average_price (Position_updatePosition delta price pos)
            = position_average_price pos)"
  by (simp add: Position_updatePosition_def Let_def)

text \<open>
  An instance of each case: 10 held at 100, then 15 sold at 110 (the blend gives 130 for
  the 5 now short), or 10 sold at 110 (quantity 0, average still 100).
\<close>

theorem Position_updatePosition_always_blends_witness:
  "position_quantity (Position_updatePosition (- 15) 110 long_position) = - 5
   \<and> position_average_price (Position_updatePosition (- 15) 110 long_position) = 130
   \<and> position_quantity (Position_updatePosition (- 10) 110 long_position) = 0
   \<and> position_average_price (Position_updatePosition (- 10) 110 long_position) = 100"
  using Position_updatePosition_always_blends [of "- 15" 110 long_position]
    Position_updatePosition_always_blends [of "- 10" 110 long_position]
  by (simp add: long_position_eq)

text \<open>
  Against claim C4 as the spec words it. 10 are held at 100. Selling 15 at 110 flips the
  position to 5 short, and the new average price is not the trade's 110; selling 5 at 110
  reduces the position to 5 long, and the average price of the remainder is not the 100
  it was.
\<close>

theorem Position_updatePosition_flip_and_reduce:
  "position_quantity long_position = 10
   \<and> position_average_price long_position = 100
   \<and> position_quantity (Position_updatePosition (- 15) 110 long_position) = - 5
   \<and> position_average_price (Position_updatePosition (- 15) 110 long_position) \<noteq> 110
   \<and> position_quantity (Position_updatePosition (- 5) 110 long_position) = 5
   \<and> position_average_price (Position_updatePosition (- 5) 110 long_position) \<noteq> 100"
  by (simp add: long_position_eq Position_updatePosition_def Let_def)

section \<open>Order construction\<close>

lemma digit_val_digit_char: "d < 10 \<Longrightarrow> digit_val (digit_char d) = d"
  by (auto simp: digit_char_def digit_val_def)

lemma digit_char_not_minus: "digit_char d \<noteq> CHR ''-''"
  by (simp add: digit_char_def)

lemma undec_dec_nat: "undec (dec_nat n) = n"
proof (induction n rule: dec_nat.induct)
  case (1 n)
  show ?case
  proof (cases "n < 10")
    case True
    then show ?thesis
      by (simp add: dec_nat.simps [of n] undec_def digit_val_digit_char)
  next
    case False
    with 1 have "undec (dec_nat (n div 10)) = n div 10" by simp
    with False show ?thesis
      by (simp add: dec_nat.simps [of n] undec_def digit_val_digit_char)
  qed
qed

lemma dec_nat_inj: "dec_nat a = dec_nat b \<Longrightarrow> a = b"
  by (metis undec_dec_nat)

lemma dec_nat_head: "dec_nat n \<noteq> [] \<and> hd (dec_nat n) \<noteq> CHR ''-''"
proof (induction n rule: dec_nat.induct)
  case (1 n)
  show ?case
  proof (cases "n < 10")
    case True
    then show ?thesis
      by (simp add: dec_nat.simps [of n] digit_char_not_minus)
  next
    case False
    with 1 have "dec_nat (n div 10) \<noteq> [] \<and> hd (dec_nat (n div 10)) \<noteq> CHR ''-''" by simp
    with False show ?thesis
      by (simp add: dec_nat.simps [of n])
  qed
qed

lemma to_string_inj: "to_string a = to_string b \<Longrightarrow> a = b"
proof -
  assume eq: "to_string a = to_string b"
  have neg_pos: "CHR ''-'' # dec_nat m \<noteq> dec_nat n" for m n
    using dec_nat_head [of n] by (cases "dec_nat n") auto
  show "a = b"
  proof (cases "a < 0")
    case an: True
    show ?thesis
    proof (cases "b < 0")
      case True
      with an eq have "dec_nat (nat (- a)) = dec_nat (nat (- b))" by (simp add: to_string_def)
      then have "nat (- a) = nat (- b)" by (rule dec_nat_inj)
      with an True show ?thesis by simp
    next
      case False
      with an eq neg_pos show ?thesis by (simp add: to_string_def)
    qed
  next
    case ap: False
    show ?thesis
    proof (cases "b < 0")
      case True
      with ap eq neg_pos [of "nat (- b)" "nat a"] show ?thesis by (simp add: to_string_def)
    next
      case False
      with ap eq have "dec_nat (nat a) = dec_nat (nat b)" by (simp add: to_string_def)
      then have "nat a = nat b" by (rule dec_nat_inj)
      with ap False show ?thesis by simp
    qed
  qed
qed

lemma to_string_1: "to_string 1 = ''1''"
  by (simp add: to_string_def dec_nat.simps digit_char_def)

text \<open>
  Claim C6, as the code has it. The constructor tests nothing: for every quantity, also
  zero and negative ones, construction succeeds (as long as the identifier counter can be
  incremented) and the order holds the quantity it was given, the identifier \<open>ORD\<close>
  followed by the incremented counter, status pending, filled quantity 0 and price 0; two
  orders constructed at different values of the counter have different identifiers.
\<close>

theorem Order_construct_accepts_any_quantity:
  assumes "counter \<noteq> INT_MAX"
  shows "Order_construct symbol side type quantity now counter
           = Some (\<lparr>order_id = ''ORD'' @ to_string (counter + 1), order_symbol = symbol,
                     order_side = side, order_type = type, order_quantity = quantity,
                     order_price = 0, order_filled_quantity = 0, order_status = PENDING,
                     order_create_time = now, order_update_time = now\<rparr>, counter + 1)
         \<and> (Order_construct symbol side type quantity now counter = Some (order, next_counter)
              \<and> Order_construct symbol' side' type' quantity' now' counter' = Some (order', next_counter')
              \<and> counter \<noteq> counter' \<longrightarrow> order_id order \<noteq> order_id order')"
proof -
  have fresh: "order_id order \<noteq> order_id order'"
    if "Order_construct symbol side type quantity now counter = Some (order, next_counter)"
      and "Order_construct symbol' side' type' quantity' now' counter' = Some (order', next_counter')"
      and "counter \<noteq> counter'"
  proof
    assume same: "order_id order = order_id order'"
    from that(1) have a: "order_id order = ''ORD'' @ to_string (counter + 1)"
      by (auto simp: Order_construct_def generateOrderId_def split: if_splits)
    from that(2) have b: "order_id order' = ''ORD'' @ to_string (counter' + 1)"
      by (auto simp: Order_construct_def generateOrderId_def split: if_splits)
    from same a b have "to_string (counter + 1) = to_string (counter' + 1)" by simp
    then have "counter + 1 = counter' + 1" by (rule to_string_inj)
    with that(3) show False by simp
  qed
  from assms have built: "Order_construct symbol side type quantity now counter
           = Some (\<lparr>order_id = ''ORD'' @ to_string (counter + 1), order_symbol = symbol,
                     order_side = side, order_type = type, order_quantity = quantity,
                     order_price = 0, order_filled_quantity = 0, order_status = PENDING,
                     order_create_time = now, order_update_time = now\<rparr>, counter + 1)"
    by (simp add: Order_construct_def generateOrderId_def)
  from built fresh show ?thesis by blast
qed

text \<open>
  An instance: a sell order of quantity 0 built when the counter stands at 41 is
  \<open>ORD42\<close>, the next one is \<open>ORD43\<close>.
\<close>

theorem Order_construct_accepts_any_quantity_witness:
  "(41::int) \<noteq> INT_MAX
   \<and> Order_construct ''AAPL'' SELL LIMIT 0 7 41
       = Some (\<lparr>order_id = ''ORD42'', order_symbol = ''AAPL'', order_side = SELL,
                 order_type = LIMIT, order_quantity = 0, order_price = 0,
                 order_filled_quantity = 0, order_status = PENDING,
                 order_create_time = 7, order_update_time = 7\<rparr>, 42)
   \<and> Order_construct ''AAPL'' SELL LIMIT 0 8 42
       = Some (\<lparr>order_id = ''ORD43'', order_symbol = ''AAPL'', order_side = SELL,
                 order_type = LIMIT, order_quantity = 0, order_price = 0,
                 order_filled_quantity = 0, order_status = PENDING,
                 order_create_time = 8, order_update_time = 8\<rparr>, 43)
   \<and> (41::int) \<noteq> 42
   \<and> order_id (fst (the (Order_construct ''AAPL'' SELL LIMIT 0 7 41)))
       \<noteq> order_id (fst (the (Order_construct ''AAPL'' SELL LIMIT 0 8 42)))"
proof -
  have h: "(41::int) \<noteq> INT_MAX" by (simp add: INT_MAX_def)
  have a: "Order_construct ''AAPL'' SELL LIMIT 0 7 41
       = Some (\<lparr>order_id = ''ORD42'', order_symbol = ''AAPL'', order_side = SELL,
                 order_type = LIMIT, order_quantity = 0, order_price = 0,
                 order_filled_quantity = 0, order_status = PENDING,
                 order_create_time = 7, order_update_time = 7\<rparr>, 42)"
    using Order_construct_accepts_any_quantity [OF h, of "''AAPL''" SELL LIMIT 0 7]
    by (simp add: to_string_def dec_nat.simps digit_char_def)
  have b: "Order_construct ''AAPL'' SELL LIMIT 0 8 42
       = Some (\<lparr>order_id = ''ORD43'', order_symbol = ''AAPL'', order_side = SELL,
                 order_type = LIMIT, order_quantity = 0, order_price = 0,
                 order_filled_quantity = 0, order_status = PENDING,
                 order_create_time = 8, order_update_time = 8\<rparr>, 43)"
    by (simp add: Order_construct_def generateOrderId_def INT_MAX_def to_string_def
        dec_nat.simps digit_char_def)
  have c: "order_id (fst (the (Order_construct ''AAPL'' SELL LIMIT 0 7 41)))
       \<noteq> order_id (fst (the (Order_construct ''AAPL'' SELL LIMIT 0 8 42)))"
    using a b by simp
  from h a b c show ?thesis by simp
qed

text \<open>
  Against claim C6 as the spec words it: an order of quantity -5 is constructed like
  any other.
\<close>

theorem Order_construct_negative_quantity:
  "Order_construct ''AAPL'' BUY MARKET (- 5) 0 0
     = Some (\<lparr>order_id = ''ORD1'', order_symbol = ''AAPL'', order_side = BUY,
               order_type = MARKET, order_quantity = - 5, order_price = 0,
               order_filled_quantity = 0, order_status = PENDING,
               order_create_time = 0, order_update_time = 0\<rparr>, 1)"
  by (simp add: Order_construct_def generateOrderId_def INT_MAX_def to_string_1)

section \<open>The risk checks\<close>

subsection \<open>The call, one branch for each outcome\<close>

lemma updateRiskMetrics_owned:
  "manager_mutex rm \<Longrightarrow> updateRiskMetrics portfolio rm = None"
  by (simp add: updateRiskMetrics_def lock_guard_def)

text \<open>
  When no check fires, \<^verbatim>\<open>updateRiskMetrics\<close> is entered with the mutex owned by the
  caller, and its own \<^verbatim>\<open>lock_guard\<close> never gets it.
\<close>

lemma checkOrderRisk_cases:
  assumes "\<not> manager_mutex rm"
  shows "checkOrderRisk order portfolio rm =
     (let portfolio_value = getTotalValue portfolio (manager_current_prices rm) in
      if position_size_exceeded (manager_limits rm) order portfolio_value
      then Some (False, [PositionSizeLimitExceeded (order_symbol order)], rm)
      else if leverage_exceeded (manager_limits rm) order portfolio portfolio_value
      then Some (False, [LeverageLimitExceeded], rm)
      else if drawdown_exceeded (manager_limits rm) portfolio
      then Some (False, [DrawdownLimitExceeded], rm)
      else if daily_loss_exceeded (manager_limits rm) portfolio
      then Some (False, [DailyLossLimitExceeded], rm)
      else if concentration_exceeded (manager_limits rm) order portfolio portfolio_value
      then Some (False, [ConcentrationLimitExceeded (order_symbol order)], rm)
      else None)"
  using assms
  by (simp add: checkOrderRisk_def lock_guard_def unlock_def updateRiskMetrics_owned Let_def)

lemma example_manager:
  "manager_limits (RiskManager_init example_limits) = example_limits"
  "manager_current_prices (RiskManager_init example_limits) = Map.empty"
  "\<not> manager_mutex (RiskManager_init example_limits)"
  by (simp_all add: RiskManager_init_def)

lemma example_limits_simps:
  "max_position_size example_limits = 0.1"
  "max_leverage example_limits = 2"
  "max_drawdown example_limits = 0.2"
  "daily_loss_limit example_limits = 50000"
  "position_concentration example_limits = 0.15"
  by (simp_all add: example_limits_def)

lemma limit_order_simps:
  "order_symbol (limit_order symbol quantity price) = symbol"
  "order_quantity (limit_order symbol quantity price) = quantity"
  "order_price (limit_order symbol quantity price) = price"
  by (simp_all add: limit_order_def setPrice_def)

lemma market_order_simps:
  "order_symbol (market_order quantity) = ''AAPL''"
  "order_quantity (market_order quantity) = quantity"
  "order_price (market_order quantity) = 0"
  by (simp_all add: market_order_def)

lemma Portfolio_init_simps:
  "portfolio_cash Portfolio_init = 1000000"
  "portfolio_positions Portfolio_init = []"
  "getTotalExposure Portfolio_init = 0"
  "getDrawdown Portfolio_init = 0"
  "getLeverage Portfolio_init = 1"
  "getDailyPnL Portfolio_init = 0"
  "getConcentration Portfolio_init = 0"
  by (simp_all add: Portfolio_init_def getTotalExposure_def getDrawdown_def getLeverage_def
      getDailyPnL_def getConcentration_def)

lemma after_first_fill_eq:
  "after_first_fill = Portfolio_init\<lparr>portfolio_positions :=
     [(''AAPL'', \<lparr>position_symbol = ''AAPL'', position_quantity = 100,
                  position_average_price = 900\<rparr>)]\<rparr>"
  by (simp add: after_first_fill_def Portfolio_updatePosition_def Portfolio_init_def
      Position_init_def Position_updatePosition_def Let_def)

lemma after_second_fill_eq:
  "after_second_fill = Portfolio_init\<lparr>portfolio_positions :=
     [(''AAPL'', \<lparr>position_symbol = ''AAPL'', position_quantity = 150,
                  position_average_price = 900\<rparr>)]\<rparr>"
  by (simp add: after_second_fill_def after_first_fill_eq Portfolio_updatePosition_def
      Portfolio_init_def Position_updatePosition_def Let_def)

lemma drained_portfolio_eq:
  "drained_portfolio = Portfolio_init\<lparr>portfolio_cash := 0\<rparr>"
  by (simp add: drained_portfolio_def updateCash_def Portfolio_init_def)

lemma createOrder_first:
  "createOrder Portfolio_init Map.empty 0.1 buy_signal 0 0 = Some (market_order 50000, 1)"
  by (simp add: createOrder_def calculateOrderSize_def getTotalValue_def Portfolio_init_def
      buy_signal_def Order_construct_def generateOrderId_def INT_MAX_def to_string_1
      market_order_def Let_def)

subsection \<open>The position-size check comes first\<close>

text \<open>
  Claim C3. Whenever the order's quantity times price, divided by the portfolio's total
  value at the manager's prices, is strictly above the position-size limit, the call
  returns reject, whatever the leverage, drawdown, daily-loss and concentration limits
  and the portfolio's aggregates are; the only line logged is the one of the
  position-size check, and the manager, its metrics mapping included, is afterwards
  what it was before.
\<close>

theorem position_size_rejects_first:
  assumes free: "\<not> manager_mutex rm"
    and over: "exceeds (fdiv (order_quantity order * order_price order)
                   (getTotalValue portfolio (manager_current_prices rm)))
                 (max_position_size (manager_limits rm))"
  shows "checkOrderRisk order
           (portfolio\<lparr>portfolio_total_exposure := e, portfolio_drawdown := d,
              portfolio_leverage := l, portfolio_daily_pnl := p, portfolio_concentration := c\<rparr>)
           (rm\<lparr>manager_limits := (manager_limits rm)\<lparr>max_leverage := ml, max_drawdown := md,
              daily_loss_limit := dl, position_concentration := pc\<rparr>\<rparr>)
         = Some (False, [PositionSizeLimitExceeded (order_symbol order)],
             rm\<lparr>manager_limits := (manager_limits rm)\<lparr>max_leverage := ml, max_drawdown := md,
               daily_loss_limit := dl, position_concentration := pc\<rparr>\<rparr>)
       \<and> checkOrderRisk order portfolio rm
         = Some (False, [PositionSizeLimitExceeded (order_symbol order)], rm)"
  using free over
  by (simp add: checkOrderRisk_def lock_guard_def unlock_def position_size_exceeded_def
      position_value_def getTotalValue_def)

text \<open>
  An instance: 3000 shares at 900 against a portfolio worth 1,000,000 are 2.7 times the
  portfolio, above the leverage limit of 2 as well; the order is rejected on position
  size.
\<close>

theorem position_size_rejects_first_witness:
  "\<not> manager_mutex (RiskManager_init example_limits)
   \<and> exceeds (fdiv (3000 * 900) (getTotalValue Portfolio_init Map.empty)) 0.1
   \<and> leverage_exceeded example_limits (limit_order ''AAPL'' 3000 900) Portfolio_init 1000000
   \<and> checkOrderRisk (limit_order ''AAPL'' 3000 900) Portfolio_init (RiskManager_init example_limits)
       = Some (False, [PositionSizeLimitExceeded ''AAPL''], RiskManager_init example_limits)"
proof -
  have h1: "\<not> manager_mutex (RiskManager_init example_limits)"
    by (rule example_manager)
  have h2: "exceeds (fdiv (order_quantity (limit_order ''AAPL'' 3000 900)
               * order_price (limit_order ''AAPL'' 3000 900))
             (getTotalValue Portfolio_init (manager_current_prices (RiskManager_init example_limits))))
           (max_position_size (manager_limits (RiskManager_init example_limits)))"
    by (simp add: limit_order_simps example_manager example_limits_simps getTotalValue_def
        Portfolio_init_simps fdiv_def)
  have h3: "leverage_exceeded example_limits (limit_order ''AAPL'' 3000 900) Portfolio_init 1000000"
    by (simp add: leverage_exceeded_def position_value_def limit_order_simps example_limits_simps
        Portfolio_init_simps fdiv_def)
  from position_size_rejects_first [OF h1 h2] h1 h2 h3 show ?thesis
    by (simp add: limit_order_simps example_manager example_limits_simps getTotalValue_def
        Portfolio_init_simps)
qed

subsection \<open>Orders whose price was never set\<close>

lemma unpriced_position_size:
  "order_price order = 0 \<Longrightarrow>
     position_size_exceeded limits order portfolio_value
       = (portfolio_value \<noteq> 0 \<and> max_position_size limits < 0)"
  by (simp add: position_size_exceeded_def position_value_def fdiv_def)

lemma unpriced_concentration:
  "order_price order = 0 \<Longrightarrow>
     concentration_exceeded limits order portfolio portfolio_value
       = (portfolio_value \<noteq> 0 \<and> position_concentration limits < 0)"
  by (simp add: concentration_exceeded_def new_concentration_def fdiv_def Let_def)

text \<open>
  Claim C2, as the code has it. Every order the control loop builds with
  \<^verbatim>\<open>createOrder\<close> is a market order whose price is still 0. For an order whose price
  is 0 the position-size and the concentration check compute a notional of 0, and as
  long as the position-size limit and the concentration limit are not negative, neither
  check fires, for any quantity: the call rejects, if at all, on leverage, drawdown or
  daily loss, and otherwise goes on to the metrics refresh. (A limit below 0 is exceeded
  by the notional 0 itself.)
\<close>

theorem unpriced_order_size_and_concentration:
  assumes "order_price order = 0"
    and "0 \<le> max_position_size (manager_limits rm)"
    and "0 \<le> position_concentration (manager_limits rm)"
    and "\<not> manager_mutex rm"
  shows "\<not> position_size_exceeded (manager_limits rm) order
             (getTotalValue portfolio (manager_current_prices rm))
       \<and> \<not> concentration_exceeded (manager_limits rm) order portfolio
             (getTotalValue portfolio (manager_current_prices rm))
       \<and> checkOrderRisk order portfolio rm
           \<in> {None, Some (False, [LeverageLimitExceeded], rm),
              Some (False, [DrawdownLimitExceeded], rm),
              Some (False, [DailyLossLimitExceeded], rm)}
       \<and> (createOrder held prices position_size_limit signal now counter = Some (created, counter')
            \<longrightarrow> order_price created = 0 \<and> order_type created = MARKET)"
proof -
  from assms have s: "\<not> position_size_exceeded (manager_limits rm) order
      (getTotalValue portfolio (manager_current_prices rm))"
    by (simp add: unpriced_position_size)
  from assms have c: "\<not> concentration_exceeded (manager_limits rm) order portfolio
      (getTotalValue portfolio (manager_current_prices rm))"
    by (simp add: unpriced_concentration)
  from assms(4) s c have r: "checkOrderRisk order portfolio rm
      \<in> {None, Some (False, [LeverageLimitExceeded], rm),
         Some (False, [DrawdownLimitExceeded], rm),
         Some (False, [DailyLossLimitExceeded], rm)}"
    by (simp add: checkOrderRisk_cases Let_def)
  have m: "order_price created = 0 \<and> order_type created = MARKET"
    if "createOrder held prices position_size_limit signal now counter = Some (created, counter')"
    using that
    by (auto simp: createOrder_def Order_construct_def split: option.splits)
  from s c r m show ?thesis by blast
qed

text \<open>
  An instance: the first order of the loop, for a signal of strength 0.5 with a
  position-size fraction of 0.1 on the fresh portfolio, under the example limits.
\<close>

theorem unpriced_order_size_and_concentration_witness:
  "order_price (market_order 50000) = 0
   \<and> 0 \<le> max_position_size (manager_limits (RiskManager_init example_limits))
   \<and> 0 \<le> position_concentration (manager_limits (RiskManager_init example_limits))
   \<and> \<not> manager_mutex (RiskManager_init example_limits)
   \<and> createOrder Portfolio_init Map.empty 0.1 buy_signal 0 0 = Some (market_order 50000, 1)
   \<and> \<not> position_size_exceeded example_limits (market_order 50000) 1000000
   \<and> \<not> concentration_exceeded example_limits (market_order 50000) Portfolio_init 1000000
   \<and> checkOrderRisk (market_order 50000) Portfolio_init (RiskManager_init example_limits)
       \<in> {None, Some (False, [LeverageLimitExceeded], RiskManager_init example_limits),
          Some (False, [DrawdownLimitExceeded], RiskManager_init example_limits),
          Some (False, [DailyLossLimitExceeded], RiskManager_init example_limits)}"
proof -
  have h1: "order_price (market_order 50000) = 0" by (simp add: market_order_def)
  have h2: "0 \<le> max_position_size (manager_limits (RiskManager_init example_limits))"
    by (simp add: RiskManager_init_def example_limits_def)
  have h3: "0 \<le> position_concentration (manager_limits (RiskManager_init example_limits))"
    by (simp add: RiskManager_init_def example_limits_def)
  have h4: "\<not> manager_mutex (RiskManager_init example_limits)"
    by (simp add: RiskManager_init_def)
  have v: "getTotalValue Portfolio_init (manager_current_prices (RiskManager_init example_limits))
      = 1000000"
    by (simp add: getTotalValue_def Portfolio_init_def)
  have l: "manager_limits (RiskManager_init example_limits) = example_limits"
    by (simp add: RiskManager_init_def)
  from unpriced_order_size_and_concentration [OF h1 h2 h3 h4, of Portfolio_init]
    h1 h2 h3 h4 createOrder_first
  show ?thesis by (simp only: v l) blast
qed

text \<open>
  Against claim C2 as the spec words it ("any configured limits"): with a position-size
  limit of -1 the first order of the loop, price 0, is rejected on position size.
\<close>

theorem negative_limit_rejects_unpriced_order:
  "createOrder Portfolio_init Map.empty 0.1 buy_signal 0 0 = Some (market_order 50000, 1)
   \<and> order_price (market_order 50000) = 0
   \<and> checkOrderRisk (market_order 50000) Portfolio_init (RiskManager_init negative_limits)
       = Some (False, [PositionSizeLimitExceeded ''AAPL''], RiskManager_init negative_limits)"
proof -
  have "checkOrderRisk (market_order 50000) Portfolio_init (RiskManager_init negative_limits)
       = Some (False, [PositionSizeLimitExceeded ''AAPL''], RiskManager_init negative_limits)"
    by (simp add: checkOrderRisk_def lock_guard_def unlock_def
        RiskManager_init_def negative_limits_def example_limits_def position_size_exceeded_def
        position_value_def fdiv_def getTotalValue_def Portfolio_init_def market_order_def)
  moreover have "order_price (market_order 50000) = 0"
    by (simp add: market_order_def)
  ultimately show ?thesis
    using createOrder_first by simp
qed

subsection \<open>The concentration check\<close>

text \<open>
  After checks 1 to 4 have passed, the call returns reject exactly when the new
  concentration is strictly above the concentration limit.
\<close>

lemma concentration_decides:
  assumes "\<not> manager_mutex rm"
    and "\<not> position_size_exceeded (manager_limits rm) order
           (getTotalValue portfolio (manager_current_prices rm))"
    and "\<not> leverage_exceeded (manager_limits rm) order portfolio
           (getTotalValue portfolio (manager_current_prices rm))"
    and "\<not> drawdown_exceeded (manager_limits rm) portfolio"
    and "\<not> daily_loss_exceeded (manager_limits rm) portfolio"
  shows "(\<exists>logged rm'. checkOrderRisk order portfolio rm = Some (False, logged, rm'))
       = exceeds (new_concentration order portfolio
             (getTotalValue portfolio (manager_current_prices rm)))
           (position_concentration (manager_limits rm))"
  using assms by (simp add: checkOrderRisk_cases Let_def concentration_exceeded_def)

text \<open>
  Claim C8, on the example scenario: starting cash 1,000,000 and the example limits. The
  order for 100 shares at 900 has concentration 9 percent and the follow-on order for 50
  more has 13.5 percent: no check fires for either, and the spec has both accepted. In
  the code neither call returns: the refresh that precedes \<^verbatim>\<open>return true\<close> waits for
  the mutex its caller holds. The further order for 20 shares, concentration 15.3
  percent, is rejected on concentration, as the claim says.
\<close>

theorem concentration_scenario:
  "getTotalValue Portfolio_init Map.empty = 1000000
   \<and> new_concentration (limit_order ''AAPL'' 100 900) Portfolio_init 1000000 = Finite 0.09
   \<and> checkOrderRisk (limit_order ''AAPL'' 100 900) Portfolio_init
         (RiskManager_init example_limits) = None
   \<and> getTotalValue after_first_fill Map.empty = 1000000
   \<and> new_concentration (limit_order ''AAPL'' 50 900) after_first_fill 1000000 = Finite 0.135
   \<and> checkOrderRisk (limit_order ''AAPL'' 50 900) after_first_fill
         (RiskManager_init example_limits) = None
   \<and> getTotalValue after_second_fill Map.empty = 1000000
   \<and> new_concentration (limit_order ''AAPL'' 20 900) after_second_fill 1000000 = Finite 0.153
   \<and> checkOrderRisk (limit_order ''AAPL'' 20 900) after_second_fill
         (RiskManager_init example_limits)
       = Some (False, [ConcentrationLimitExceeded ''AAPL''], RiskManager_init example_limits)"
proof -
  note defs = position_size_exceeded_def leverage_exceeded_def drawdown_exceeded_def
    daily_loss_exceeded_def concentration_exceeded_def new_concentration_def
    position_value_def getPosition_def limit_order_simps fdiv_def example_limits_simps
    getTotalValue_def Portfolio_init_def getTotalExposure_def getDrawdown_def getDailyPnL_def
  have v0: "getTotalValue Portfolio_init Map.empty = 1000000"
    by (simp add: defs)
  have v1: "getTotalValue after_first_fill Map.empty = 1000000"
    by (simp add: after_first_fill_eq defs)
  have v2: "getTotalValue after_second_fill Map.empty = 1000000"
    by (simp add: after_second_fill_eq defs)
  have n0: "new_concentration (limit_order ''AAPL'' 100 900) Portfolio_init 1000000 = Finite 0.09"
    by (simp add: defs)
  have n1: "new_concentration (limit_order ''AAPL'' 50 900) after_first_fill 1000000 = Finite 0.135"
    by (simp add: after_first_fill_eq defs)
  have n2: "new_concentration (limit_order ''AAPL'' 20 900) after_second_fill 1000000 = Finite 0.153"
    by (simp add: after_second_fill_eq defs)
  have r0: "checkOrderRisk (limit_order ''AAPL'' 100 900) Portfolio_init
      (RiskManager_init example_limits) = None"
    by (simp add: checkOrderRisk_cases [OF example_manager(3)] example_manager(1,2) defs)
  have r1: "checkOrderRisk (limit_order ''AAPL'' 50 900) after_first_fill
      (RiskManager_init example_limits) = None"
    by (simp add: checkOrderRisk_cases [OF example_manager(3)] example_manager(1,2)
        after_first_fill_eq defs)
  have r2: "checkOrderRisk (limit_order ''AAPL'' 20 900) after_second_fill
      (RiskManager_init example_limits)
       = Some (False, [ConcentrationLimitExceeded ''AAPL''], RiskManager_init example_limits)"
    by (simp add: checkOrderRisk_cases [OF example_manager(3)] example_manager(1,2)
        after_second_fill_eq defs)
  from v0 v1 v2 n0 n1 n2 r0 r1 r2 show ?thesis by blast
qed

subsection \<open>The accept path\<close>

text \<open>
  Claim C5, at an order that passes all five checks: 10 shares at 100 on the fresh
  portfolio under the example limits. The spec has the call return accept after the
  metrics were refreshed. In the code the call does not return, so nothing is refreshed
  and no accept is given; the same \<^verbatim>\<open>updateRiskMetrics\<close>, called on its own as the
  control loop does once per iteration, stores the four metrics.
\<close>

theorem passing_order_never_accepted:
  "\<not> position_size_exceeded example_limits (limit_order ''MSFT'' 10 100) 1000000
   \<and> \<not> leverage_exceeded example_limits (limit_order ''MSFT'' 10 100) Portfolio_init 1000000
   \<and> \<not> drawdown_exceeded example_limits Portfolio_init
   \<and> \<not> daily_loss_exceeded example_limits Portfolio_init
   \<and> \<not> concentration_exceeded example_limits (limit_order ''MSFT'' 10 100) Portfolio_init 1000000
   \<and> getTotalValue Portfolio_init (manager_current_prices (RiskManager_init example_limits))
       = 1000000
   \<and> checkOrderRisk (limit_order ''MSFT'' 10 100) Portfolio_init
         (RiskManager_init example_limits) = None
   \<and> updateRiskMetrics Portfolio_init (RiskManager_init example_limits)
       = Some ([RiskMetricsUpdated 0 1 0],
           (RiskManager_init example_limits)\<lparr>manager_current_metrics :=
              [''drawdown'' \<mapsto> 0, ''leverage'' \<mapsto> 1, ''daily_pnl'' \<mapsto> 0,
               ''concentration'' \<mapsto> 0]\<rparr>)"
proof -
  have v: "getTotalValue Portfolio_init (manager_current_prices (RiskManager_init example_limits))
      = 1000000"
    by (simp add: getTotalValue_def Portfolio_init_simps example_manager)
  have c1: "\<not> position_size_exceeded example_limits (limit_order ''MSFT'' 10 100) 1000000"
    by (simp add: position_size_exceeded_def position_value_def limit_order_simps fdiv_def
        example_limits_simps)
  have c2: "\<not> leverage_exceeded example_limits (limit_order ''MSFT'' 10 100) Portfolio_init 1000000"
    by (simp add: leverage_exceeded_def position_value_def limit_order_simps fdiv_def
        example_limits_simps Portfolio_init_simps)
  have c3: "\<not> drawdown_exceeded example_limits Portfolio_init"
    by (simp add: drawdown_exceeded_def Portfolio_init_simps example_limits_simps)
  have c4: "\<not> daily_loss_exceeded example_limits Portfolio_init"
    by (simp add: daily_loss_exceeded_def Portfolio_init_simps example_limits_simps)
  have c5: "\<not> concentration_exceeded example_limits (limit_order ''MSFT'' 10 100) Portfolio_init 1000000"
    by (simp add: concentration_exceeded_def new_concentration_def getPosition_def
        limit_order_simps fdiv_def example_limits_simps Portfolio_init_simps)
  have r: "checkOrderRisk (limit_order ''MSFT'' 10 100) Portfolio_init
      (RiskManager_init example_limits) = None"
    using c1 c2 c3 c4 c5
    by (simp add: checkOrderRisk_cases [OF example_manager(3)] v example_manager(1))
  have u: "updateRiskMetrics Portfolio_init (RiskManager_init example_limits)
       = Some ([RiskMetricsUpdated 0 1 0],
           (RiskManager_init example_limits)\<lparr>manager_current_metrics :=
              [''drawdown'' \<mapsto> 0, ''leverage'' \<mapsto> 1, ''daily_pnl'' \<mapsto> 0,
               ''concentration'' \<mapsto> 0]\<rparr>)"
    by (simp add: updateRiskMetrics_def lock_guard_def unlock_def RiskManager_init_def
        Portfolio_init_simps)
  from v c1 c2 c3 c4 c5 r u show ?thesis by blast
qed

text \<open>
  Claim C10, the part of it that one thread decides: a call of \<^verbatim>\<open>checkOrderRisk\<close>
  that reaches the metrics refresh should complete. In the code
  \<^verbatim>\<open>updateRiskMetrics\<close> entered with the mutex owned does not return, so no call of
  \<^verbatim>\<open>checkOrderRisk\<close>, on any order, portfolio and manager, ever returns accept; the
  first order the control loop builds already stops there.
\<close>

theorem checkOrderRisk_never_accepts:
  "checkOrderRisk order portfolio rm \<noteq> Some (True, logged, rm')
   \<and> updateRiskMetrics portfolio (rm\<lparr>manager_mutex := True\<rparr>) = None
   \<and> checkOrderRisk (market_order 50000) Portfolio_init (RiskManager_init example_limits) = None"
proof -
  have a: "checkOrderRisk order portfolio rm \<noteq> Some (True, logged, rm')"
  proof (cases "manager_mutex rm")
    case True
    then show ?thesis by (simp add: checkOrderRisk_def lock_guard_def)
  next
    case False
    then show ?thesis by (simp add: checkOrderRisk_cases Let_def)
  qed
  have b: "updateRiskMetrics portfolio (rm\<lparr>manager_mutex := True\<rparr>) = None"
    by (simp add: updateRiskMetrics_owned)
  have c: "checkOrderRisk (market_order 50000) Portfolio_init (RiskManager_init example_limits) = None"
    by (simp add: checkOrderRisk_cases [OF example_manager(3)] example_manager(1,2)
        position_size_exceeded_def leverage_exceeded_def drawdown_exceeded_def
        daily_loss_exceeded_def concentration_exceeded_def new_concentration_def
        position_value_def getPosition_def market_order_simps fdiv_def example_limits_simps
        getTotalValue_def Portfolio_init_simps)
  from a b c show ?thesis by blast
qed

subsection \<open>A portfolio worth zero\<close>

text \<open>
  Claim C1, at a portfolio whose cash has been drained to 0 and that holds nothing. The
  spec has every order rejected there. The order the control loop builds on it has
  quantity 0 and price 0; each quotient of the checks is 0 / 0, a NaN, which no
  comparison finds above its limit; nothing is thrown, so the \<^verbatim>\<open>catch\<close> that would
  return reject is never entered. No check fires and the call goes on to the metrics
  refresh, where it stops as every call on the accept path does: it does not return
  reject.
\<close>

theorem zero_value_portfolio_not_rejected:
  "getTotalValue drained_portfolio (manager_current_prices (RiskManager_init example_limits)) = 0
   \<and> createOrder drained_portfolio Map.empty 0.1 buy_signal 0 0 = Some (market_order 0, 1)
   \<and> fdiv (position_value (market_order 0)) 0 = NaN
   \<and> \<not> position_size_exceeded example_limits (market_order 0) 0
   \<and> \<not> leverage_exceeded example_limits (market_order 0) drained_portfolio 0
   \<and> \<not> drawdown_exceeded example_limits drained_portfolio
   \<and> \<not> daily_loss_exceeded example_limits drained_portfolio
   \<and> \<not> concentration_exceeded example_limits (market_order 0) drained_portfolio 0
   \<and> checkOrderRisk (market_order 0) drained_portfolio (RiskManager_init example_limits) = None"
proof -
  have v: "getTotalValue drained_portfolio (manager_current_prices (RiskManager_init example_limits)) = 0"
    by (simp add: getTotalValue_def drained_portfolio_eq Portfolio_init_def example_manager)
  have o: "createOrder drained_portfolio Map.empty 0.1 buy_signal 0 0 = Some (market_order 0, 1)"
    by (simp add: createOrder_def calculateOrderSize_def getTotalValue_def drained_portfolio_eq
        Portfolio_init_def buy_signal_def Order_construct_def generateOrderId_def INT_MAX_def
        to_string_1 market_order_def Let_def)
  have n: "fdiv (position_value (market_order 0)) 0 = NaN"
    by (simp add: fdiv_def position_value_def market_order_simps)
  have c1: "\<not> position_size_exceeded example_limits (market_order 0) 0"
    by (simp add: position_size_exceeded_def n)
  have c2: "\<not> leverage_exceeded example_limits (market_order 0) drained_portfolio 0"
    by (simp add: leverage_exceeded_def position_value_def market_order_simps fdiv_def
        drained_portfolio_eq Portfolio_init_def getTotalExposure_def)
  have c3: "\<not> drawdown_exceeded example_limits drained_portfolio"
    by (simp add: drawdown_exceeded_def drained_portfolio_eq Portfolio_init_def getDrawdown_def
        example_limits_simps)
  have c4: "\<not> daily_loss_exceeded example_limits drained_portfolio"
    by (simp add: daily_loss_exceeded_def drained_portfolio_eq Portfolio_init_def getDailyPnL_def
        example_limits_simps)
  have c5: "\<not> concentration_exceeded example_limits (market_order 0) drained_portfolio 0"
    by (simp add: concentration_exceeded_def new_concentration_def market_order_simps fdiv_def)
  have r: "checkOrderRisk (market_order 0) drained_portfolio (RiskManager_init example_limits) = None"
    using c1 c2 c3 c4 c5
    by (simp add: checkOrderRisk_cases [OF example_manager(3)] v example_manager(1))
  from v o n c1 c2 c3 c4 c5 r show ?thesis by blast
qed

end
